theory Spec2Isabelle
  imports Complex_Main "HOL-Library.Word"
begin

section \<open>The conversation pipeline of NeuroLink Speak\<close>

text \<open>
  A shallow embedding of \<^verbatim>\<open>translator_service.py\<close>, \<^verbatim>\<open>tts_service.py\<close>,
  \<^verbatim>\<open>asr_service.py\<close>, \<^verbatim>\<open>signal_decoder.py\<close>, \<^verbatim>\<open>config.py\<close> and
  \<^verbatim>\<open>conversation_mode.py\<close>.

  The Python code calls libraries that are not part of the repository (MarianMT, langdetect,
  gTTS, numpy's and Python's random generators, the SQLAlchemy session). What such a call
  answers is a field of the record \<open>env\<close>; a call that may raise answers a sum whose
  \<open>Inl\<close> carries the text of the exception. Every \<^verbatim>\<open>try/except\<close> of the source is
  then a case distinction of the model. A function all of whose raises are caught returns a
  plain value; a function that lets an exception escape returns \<open>error + _\<close>.

  What the code shows to the user (\<^verbatim>\<open>st.warning\<close>, \<^verbatim>\<open>st.error\<close>,
  \<^verbatim>\<open>st.success\<close>) and each call of the speech back end are collected, in order, in a
  list of events returned next to the value.
\<close>

subsection \<open>Data\<close>

type_synonym bytes = "8 word list"

datatype event =
    StWarning string
  | StError string
  | StSuccess string
  | GttsCall string string  \<comment> \<open>\<^verbatim>\<open>gTTS(text=..., lang=...)\<close>\<close>

datatype error = AttributeError

record env =
  feature_scaled :: int  \<comment> \<open>\<^verbatim>\<open>int(feature_sum * 1000)\<close> of the mock signal\<close>
  confidence_levels :: "string \<Rightarrow> real"
  confidence_noise :: real  \<comment> \<open>\<^verbatim>\<open>random.uniform(-0.1, 0.1)\<close>\<close>
  from_pretrained :: "string \<Rightarrow> string option"  \<comment> \<open>the exception of loading a model, if any\<close>
  marian_generate :: "string \<Rightarrow> string \<Rightarrow> string + string"  \<comment> \<open>model name, text\<close>
  detect :: "string \<Rightarrow> string + string"  \<comment> \<open>\<^verbatim>\<open>langdetect.detect\<close>\<close>
  gtts :: "string \<Rightarrow> string \<Rightarrow> string + bytes"  \<comment> \<open>text, lang: the bytes of the saved file\<close>
  mock_audio :: bytes  \<comment> \<open>\<^verbatim>\<open>audio_signal.tobytes()\<close> of the incoming turn\<close>
  random_choice :: nat  \<comment> \<open>the draw of \<^verbatim>\<open>random.choice\<close>\<close>
  commit :: "string option"  \<comment> \<open>the exception of \<^verbatim>\<open>db.add; db.commit\<close>, if any\<close>

subsection \<open>\<^verbatim>\<open>config.py\<close>\<close>

definition TRANSLATION_MODELS :: "(string \<times> string) list" where
  "TRANSLATION_MODELS =
    [(''en-es'', ''Helsinki-NLP/opus-mt-en-es''),
     (''es-en'', ''Helsinki-NLP/opus-mt-es-en''),
     (''en-fr'', ''Helsinki-NLP/opus-mt-en-fr''),
     (''fr-en'', ''Helsinki-NLP/opus-mt-fr-en''),
     (''en-de'', ''Helsinki-NLP/opus-mt-en-de''),
     (''de-en'', ''Helsinki-NLP/opus-mt-de-en''),
     (''en-it'', ''Helsinki-NLP/opus-mt-en-it''),
     (''it-en'', ''Helsinki-NLP/opus-mt-it-en''),
     (''en-pt'', ''Helsinki-NLP/opus-mt-en-pt''),
     (''pt-en'', ''Helsinki-NLP/opus-mt-pt-en''),
     (''en-ru'', ''Helsinki-NLP/opus-mt-en-ru''),
     (''ru-en'', ''Helsinki-NLP/opus-mt-ru-en''),
     (''en-ar'', ''Helsinki-NLP/opus-mt-en-ar''),
     (''ar-en'', ''Helsinki-NLP/opus-mt-ar-en''),
     (''en-hi'', ''Helsinki-NLP/opus-mt-en-hi''),
     (''hi-en'', ''Helsinki-NLP/opus-mt-hi-en''),
     (''en-zh'', ''Helsinki-NLP/opus-mt-en-zh''),
     (''zh-en'', ''Helsinki-NLP/opus-mt-zh-en'')]"

subsection \<open>\<^verbatim>\<open>translator_service.py\<close>\<close>

text \<open>
  \<^verbatim>\<open>load_model_and_tokenizer\<close> answers whether the pair it returns is a model and a
  tokenizer (\<open>True\<close>) or \<^verbatim>\<open>(None, None)\<close>.
\<close>

definition load_model_and_tokenizer :: "env \<Rightarrow> string \<Rightarrow> bool \<times> event list" where
  "load_model_and_tokenizer e model_name =
     (case from_pretrained e model_name of
        None \<Rightarrow> (True, [])
      | Some ex \<Rightarrow>
          (False, [StError (''Error loading translation model '' @ model_name @ '': '' @ ex)]))"

definition TranslatorService_translate_text ::
  "env \<Rightarrow> string \<Rightarrow> string \<Rightarrow> string \<Rightarrow> string option \<times> event list" where
  "TranslatorService_translate_text e text source_lang target_lang =
     (let model_key = source_lang @ ''-'' @ target_lang in
      case map_of TRANSLATION_MODELS model_key of
        None \<Rightarrow>
          (None, [StWarning (''Translation from '' @ source_lang @ '' to '' @ target_lang
                              @ '' not supported'')])
      | Some model_name \<Rightarrow>
          (case load_model_and_tokenizer e model_name of
             (False, evs) \<Rightarrow> (None, evs @ [StError ''Failed to load translation model''])
           | (True, evs) \<Rightarrow>
               (case marian_generate e model_name text of
                  Inl ex \<Rightarrow> (None, evs @ [StError (''Error during translation: '' @ ex)])
                | Inr translated_text \<Rightarrow> (Some translated_text, evs))))"

definition translate_text :: "env \<Rightarrow> string \<Rightarrow> string \<Rightarrow> string \<Rightarrow> string \<times> event list" where
  "translate_text e text source_lang target_lang =
     (if text = [] then ([], [])
      else if target_lang = ''no'' \<or> target_lang = ''none'' then (text, [])
      else
        (case TranslatorService_translate_text e text source_lang target_lang of
           (None, evs) \<Rightarrow> (text, evs)
         | (Some translated, evs) \<Rightarrow> (if translated = [] then text else translated, evs)))"

subsection \<open>\<^verbatim>\<open>tts_service.py\<close>\<close>

text \<open>
  \<^verbatim>\<open>text_to_speech\<close> never reads \<^verbatim>\<open>voice_type\<close>. A missing or empty \<^verbatim>\<open>language\<close> is
  replaced by the detected language of the text, and by \<^verbatim>\<open>"en"\<close> when detection raises.
\<close>

definition text_to_speech ::
  "env \<Rightarrow> string \<Rightarrow> string \<Rightarrow> string option \<Rightarrow> bytes option \<times> event list" where
  "text_to_speech e text voice_type language =
     (if text = [] then (None, [])
      else
        (let detected = (case detect e text of Inl ex \<Rightarrow> ''en'' | Inr l \<Rightarrow> l);
             lang = (case language of
                       None \<Rightarrow> detected
                     | Some l \<Rightarrow> if l = [] then detected else l)
         in case gtts e text lang of
              Inl ex \<Rightarrow>
                (None, [GttsCall text lang,
                        StError (''Error in text-to-speech conversion: '' @ ex)])
            | Inr audio_bytes \<Rightarrow> (Some audio_bytes, [GttsCall text lang])))"

definition generate_speech ::
  "env \<Rightarrow> string \<Rightarrow> string \<Rightarrow> string option \<Rightarrow> bytes option \<times> event list" where
  "generate_speech e text voice_type language =
     (if text = [] then (None, [])
      else text_to_speech e text voice_type language)"

subsection \<open>\<^verbatim>\<open>asr_service.py\<close>\<close>

definition mock_transcriptions :: "string list" where
  "mock_transcriptions =
    [''Hello, how are you today?'',
     ''I would like to order some food.'',
     ''Can you help me with this task?'',
     ''The weather is nice today.'',
     ''I need to go to the store.'',
     ''What time is it?'',
     ''Thank you for your assistance.'',
     ''I don't understand what you mean.'',
     ''Could you please repeat that?'',
     ''I'm feeling tired right now.'',
     ''This is a sample transcription.'',
     ''I enjoy listening to music.'',
     ''Where is the nearest hospital?'',
     ''I need some water please.'',
     ''How much does this cost?'']"

definition transcribe_audio :: "env \<Rightarrow> bytes \<Rightarrow> string option" where
  "transcribe_audio e audio_bytes =
     (if audio_bytes = [] then None
      else Some (mock_transcriptions ! (random_choice e mod length mock_transcriptions)))"

definition transcribe_speech :: "env \<Rightarrow> bytes \<Rightarrow> string option" where
  "transcribe_speech e audio_bytes =
     (if audio_bytes = [] then None
      else transcribe_audio e audio_bytes)"

subsection \<open>\<^verbatim>\<open>signal_decoder.py\<close>\<close>

definition phrases :: "string list" where
  "phrases =
    [''I need help'', ''I am hungry'', ''I am thirsty'', ''I am in pain'',
     ''I need to use the restroom'', ''Yes'', ''No'', ''Please'', ''Thank you'',
     ''Hello'', ''Goodbye'', ''I love you'', ''I am tired'', ''I am happy'',
     ''I am sad'', ''I am uncomfortable'', ''I am cold'', ''I am hot'',
     ''I am scared'', ''I am confused'']"

definition decode_signal :: "env \<Rightarrow> string \<times> real" where
  "decode_signal e =
     (let phrase_index = nat (feature_scaled e mod int (length phrases));
          phrase = phrases ! phrase_index
      in (phrase, max (1 / 10) (min (99 / 100) (confidence_levels e phrase + confidence_noise e))))"

text \<open>The time and signal arrays of the result are never read by the callers modelled here.\<close>

definition get_mock_decoded_text :: "env \<Rightarrow> string \<times> real" where
  "get_mock_decoded_text e = decode_signal e"

subsection \<open>\<^verbatim>\<open>database.py\<close> and the session state\<close>

text \<open>The columns of \<^verbatim>\<open>database.User\<close> that the pipeline reads.\<close>

record User =
  id_col :: int
  native_language :: string
  target_language :: string
  voice_type :: string

text \<open>
  A row of \<^verbatim>\<open>conversation_logs\<close>; the columns \<^verbatim>\<open>id\<close> and \<^verbatim>\<open>timestamp\<close> are filled
  in by the database and are left out. The fields carry the suffix \<open>_col\<close>, the plain
  names being those of the local variables of the code.
\<close>

record ConversationLog =
  user_id_col :: int
  direction_col :: string
  original_text_col :: string
  translated_text_col :: string
  audio_file_path_col :: "string option"

text \<open>A \<^verbatim>\<open>message_entry\<close> dictionary; partner entries have no \<^verbatim>\<open>confidence\<close> key.\<close>

record message_entry =
  sender :: string
  original :: string
  translated :: string
  confidence :: "real option"
  audio :: "bytes option"
  timestamp :: int

text \<open>
  \<^verbatim>\<open>st.session_state\<close> after \<^verbatim>\<open>ConversationManager.__init__\<close>: the history and the
  decoding switch are present, the key \<^verbatim>\<open>message_counter\<close> may be missing.
\<close>

record session_state =
  conversation_history :: "message_entry list"
  message_counter :: "int option"
  active_decoding :: bool

record ConversationManager =
  user :: "User option"

record 'a outcome =
  returned :: 'a
  session :: session_state
  database :: "ConversationLog list"
  events :: "event list"

subsection \<open>\<^verbatim>\<open>conversation_mode.py\<close>\<close>

text \<open>Python's \<^verbatim>\<open>str\<close> of an integer, as the f-string of the audio path formats it.\<close>

function str_nat :: "nat \<Rightarrow> string" where
  "str_nat n =
     (if n < 10 then [''0123456789'' ! n]
      else str_nat (n div 10) @ [''0123456789'' ! (n mod 10)])"
  by pat_completeness auto
termination
  by (relation "measure id") auto

declare str_nat.simps [simp del]

definition str_int :: "int \<Rightarrow> string" where
  "str_int i = (if i < 0 then ''-'' @ str_nat (nat (- i)) else str_nat (nat i))"

text \<open>\<^verbatim>\<open>st.session_state.get("message_counter", 0)\<close>\<close>

definition get_message_counter :: "session_state \<Rightarrow> int" where
  "get_message_counter st = (case message_counter st of None \<Rightarrow> 0 | Some c \<Rightarrow> c)"

text \<open>
  \<^verbatim>\<open>save_conversation_log\<close> answers its boolean, the table and what it reported. Opening,
  rolling back and closing the SQLAlchemy session touch no row; the only step of the
  \<^verbatim>\<open>try\<close> block that is taken to fail is \<^verbatim>\<open>db.add; db.commit\<close>, and its exception
  is caught there. The session state is read (for the length of the history) and never
  written.
\<close>

definition save_conversation_log ::
  "env \<Rightarrow> ConversationManager \<Rightarrow> session_state \<Rightarrow> ConversationLog list \<Rightarrow>
   string \<Rightarrow> string \<Rightarrow> string \<Rightarrow> bytes option \<Rightarrow> bool \<times> ConversationLog list \<times> event list" where
  "save_conversation_log e self st db direction original_text translated_text audio_bytes =
     (case user self of
        None \<Rightarrow> (False, db, [])
      | Some u \<Rightarrow>
          (let audio_file_path =
                 (if audio_bytes \<noteq> None \<and> audio_bytes \<noteq> Some []
                  then Some (''audio_logs/'' @ str_int (id_col u) @ ''_'' @ direction @ ''_''
                             @ str_nat (length (conversation_history st)) @ ''.wav'')
                  else None);
               log_entry = \<lparr>user_id_col = id_col u, direction_col = direction,
                            original_text_col = original_text,
                            translated_text_col = translated_text,
                            audio_file_path_col = audio_file_path\<rparr>
           in case commit e of
                None \<Rightarrow> (True, db @ [log_entry], [])
              | Some ex \<Rightarrow> (False, db, [StError (''Error saving conversation log: '' @ ex)])))"

text \<open>
  Reading \<^verbatim>\<open>self.user.native_language\<close> when there is no user raises
  \<^verbatim>\<open>AttributeError\<close>, after the signal has been decoded and before anything is written.
\<close>

definition simulate_outgoing_message ::
  "env \<Rightarrow> ConversationManager \<Rightarrow> session_state \<Rightarrow> ConversationLog list \<Rightarrow>
   error + (string \<times> string \<times> bytes option) outcome" where
  "simulate_outgoing_message e self st db =
     (case get_mock_decoded_text e of
        (original_text, conf) \<Rightarrow>
          (case user self of
             None \<Rightarrow> Inl AttributeError
           | Some u \<Rightarrow>
               (case translate_text e original_text (native_language u) (target_language u) of
                  (translated_text, evs1) \<Rightarrow>
                    (case generate_speech e translated_text (voice_type u) None of
                       (audio_bytes, evs2) \<Rightarrow>
                         (let message_entry =
                                \<lparr>sender = ''You'', original = original_text,
                                 translated = translated_text, confidence = Some conf,
                                 audio = audio_bytes, timestamp = get_message_counter st\<rparr>;
                              st1 = st\<lparr>conversation_history :=
                                         conversation_history st @ [message_entry]\<rparr>;
                              st2 = st1\<lparr>message_counter := Some (get_message_counter st1 + 1)\<rparr>
                          in case save_conversation_log e self st2 db ''outgoing''
                                    original_text translated_text audio_bytes of
                               (ok, db', evs3) \<Rightarrow>
                                 Inr \<lparr>returned = (original_text, translated_text, audio_bytes),
                                      session = st2, database = db',
                                      events = evs1 @ evs2 @ evs3\<rparr>)))))"

definition simulate_incoming_message ::
  "env \<Rightarrow> ConversationManager \<Rightarrow> session_state \<Rightarrow> ConversationLog list \<Rightarrow>
   error + (string \<times> string \<times> bytes option) outcome" where
  "simulate_incoming_message e self st db =
     (let audio_bytes = mock_audio e;
          original_text =
            (case transcribe_speech e audio_bytes of
               None \<Rightarrow> ''Sorry, I couldn't understand that.''
             | Some transcription \<Rightarrow>
                 if transcription = [] then ''Sorry, I couldn't understand that.''
                 else transcription)
      in case user self of
           None \<Rightarrow> Inl AttributeError
         | Some u \<Rightarrow>
             (case translate_text e original_text (target_language u) (native_language u) of
                (translated_text, evs1) \<Rightarrow>
                  (case generate_speech e translated_text (voice_type u) None of
                     (response_audio_bytes, evs2) \<Rightarrow>
                       (let message_entry =
                              \<lparr>sender = ''Partner'', original = original_text,
                               translated = translated_text, confidence = None,
                               audio = response_audio_bytes,
                               timestamp = get_message_counter st\<rparr>;
                            st1 = st\<lparr>conversation_history :=
                                       conversation_history st @ [message_entry]\<rparr>;
                            st2 = st1\<lparr>message_counter := Some (get_message_counter st1 + 1)\<rparr>
                        in case save_conversation_log e self st2 db ''incoming''
                                  original_text translated_text response_audio_bytes of
                             (ok, db', evs3) \<Rightarrow>
                               Inr \<lparr>returned =
                                      (original_text, translated_text, response_audio_bytes),
                                    session = st2, database = db',
                                    events = evs1 @ evs2 @ evs3\<rparr>))))"

text \<open>
  What the widgets of one run of the page answer: the toggle, the three buttons and the
  text field. \<^verbatim>\<open>st.rerun()\<close> ends the run, so nothing after it is executed.
  \<^verbatim>\<open>display_conversation_history\<close> only draws and is left out.
\<close>

record ui_input =
  toggle :: bool
  button_outgoing :: bool
  button_incoming :: bool
  manual_text :: string
  button_manual :: bool

definition conversation_interface ::
  "env \<Rightarrow> ui_input \<Rightarrow> ConversationManager \<Rightarrow> session_state \<Rightarrow> ConversationLog list \<Rightarrow>
   error + unit outcome" where
  "conversation_interface e ui self st db =
     (case user self of
        None \<Rightarrow>
          Inr \<lparr>returned = (), session = st, database = db,
               events = [StWarning ''Please log in to use conversation mode'']\<rparr>
      | Some u \<Rightarrow>
          (let st0 = st\<lparr>active_decoding := toggle ui\<rparr> in
           if button_outgoing ui \<and> active_decoding st0 then
             (case simulate_outgoing_message e self st0 db of
                Inl err \<Rightarrow> Inl err
              | Inr r \<Rightarrow>
                  Inr \<lparr>returned = (), session = session r, database = database r,
                       events = events r @ [StSuccess ''Message sent successfully!'']\<rparr>)
           else
             (let evs0 =
                    (if button_outgoing ui
                     then [StWarning
                             ''Active decoding is disabled. Enable it to send messages.'']
                     else [])
              in if button_incoming ui then
                   (case simulate_incoming_message e self st0 db of
                      Inl err \<Rightarrow> Inl err
                    | Inr r \<Rightarrow>
                        Inr \<lparr>returned = (), session = session r, database = database r,
                             events = evs0 @ events r
                                      @ [StSuccess ''Partner message received!'']\<rparr>)
                 else
                   (case translate_text e (manual_text ui) ''en'' (native_language u) of
                      (native_translated_text, evs1) \<Rightarrow>
                        if button_manual ui \<and> manual_text ui \<noteq> [] then
                          (case translate_text e native_translated_text (native_language u)
                                  (target_language u) of
                             (translated_text, evs2) \<Rightarrow>
                               (case generate_speech e translated_text (voice_type u) None of
                                  (audio_bytes, evs3) \<Rightarrow>
                                    (let message_entry =
                                           \<lparr>sender = ''You'',
                                            original = native_translated_text,
                                            translated = translated_text,
                                            confidence = Some 1,
                                            audio = audio_bytes,
                                            timestamp = get_message_counter st0\<rparr>;
                                         st1 = st0\<lparr>conversation_history :=
                                                     conversation_history st0
                                                     @ [message_entry]\<rparr>;
                                         st2 = st1\<lparr>message_counter :=
                                                     Some (get_message_counter st1 + 1)\<rparr>
                                     in case save_conversation_log e self st2 db ''outgoing''
                                               (manual_text ui) translated_text audio_bytes of
                                          (ok, db', evs4) \<Rightarrow>
                                            Inr \<lparr>returned = (), session = st2,
                                                 database = db',
                                                 events = evs0 @ evs1 @ evs2 @ evs3 @ evs4
                                                   @ [StSuccess ''Manual message sent!'']\<rparr>)))
                        else
                          Inr \<lparr>returned = (), session = st0, database = db,
                               events = evs0 @ evs1\<rparr>))))"

text \<open>
  Repeated turn productions in one session: each call has its own answers of the
  environment, and an exception ends the run.
\<close>

datatype turn_kind = Outgoing | Incoming

fun produce_turns ::
  "ConversationManager \<Rightarrow> session_state \<Rightarrow> ConversationLog list \<Rightarrow> (turn_kind \<times> env) list \<Rightarrow>
   error + session_state \<times> ConversationLog list" where
  "produce_turns self st db [] = Inr (st, db)"
| "produce_turns self st db ((k, e) # calls) =
     (case (case k of Outgoing \<Rightarrow> simulate_outgoing_message e self st db
                    | Incoming \<Rightarrow> simulate_incoming_message e self st db) of
        Inl err \<Rightarrow> Inl err
      | Inr r \<Rightarrow> produce_turns self (session r) (database r) calls)"

subsection \<open>Observations and example inputs\<close>

text \<open>The calls of the speech back end among the events: text and language of each.\<close>

definition gtts_calls :: "event list \<Rightarrow> (string \<times> string) list" where
  "gtts_calls evs =
     concat (map (\<lambda>ev. case ev of GttsCall t l \<Rightarrow> [(t, l)] | _ \<Rightarrow> []) evs)"

text \<open>The session state of a new session, as \<^verbatim>\<open>__init__\<close> leaves it.\<close>

definition initial_session :: session_state where
  "initial_session =
     \<lparr>conversation_history = [], message_counter = None, active_decoding = True\<rparr>"

definition example_user :: User where
  "example_user =
     \<lparr>id_col = 7, native_language = ''en'', target_language = ''es'',
      voice_type = ''female''\<rparr>"

definition example_user_untranslated :: User where
  "example_user_untranslated =
     \<lparr>id_col = 8, native_language = ''en'', target_language = ''none'',
      voice_type = ''default''\<rparr>"

definition example_user_spanish :: User where
  "example_user_spanish =
     \<lparr>id_col = 9, native_language = ''es'', target_language = ''en'',
      voice_type = ''male''\<rparr>"

text \<open>An environment in which every library call succeeds.\<close>

definition env_working :: env where
  "env_working =
     \<lparr>feature_scaled = 2040, confidence_levels = (\<lambda>p. 85 / 100), confidence_noise = 0,
      from_pretrained = (\<lambda>m. None),
      marian_generate = (\<lambda>m t.
         case map_of [((''Helsinki-NLP/opus-mt-en-es'', ''I need help''), ''Necesito ayuda''),
                      ((''Helsinki-NLP/opus-mt-en-es'', ''Hello''), ''Hola''),
                      ((''Helsinki-NLP/opus-mt-es-en'', ''Hola''), ''Hello'')] (m, t) of
           None \<Rightarrow> Inr t | Some r \<Rightarrow> Inr r),
      detect = (\<lambda>t. if t = ''Necesito ayuda'' \<or> t = ''Hola'' then Inr ''es'' else Inr ''en''),
      gtts = (\<lambda>t l. Inr [73, 68, 51]),
      mock_audio = [1, 0, 255, 255],
      random_choice = 5,
      commit = None\<rparr>"

text \<open>
  An environment in which the translation model cannot be loaded, language detection and
  speech synthesis raise, the audio buffer is empty and the commit fails.
\<close>

definition env_failing :: env where
  "env_failing =
     \<lparr>feature_scaled = 2040, confidence_levels = (\<lambda>p. 85 / 100), confidence_noise = 0,
      from_pretrained = (\<lambda>m. Some ''offline''),
      marian_generate = (\<lambda>m t. Inl ''offline''),
      detect = (\<lambda>t. Inl ''no features in text''),
      gtts = (\<lambda>t l. Inl ''connection refused''),
      mock_audio = [],
      random_choice = 5,
      commit = Some ''database is locked''\<rparr>"

definition manual_hello :: ui_input where
  "manual_hello =
     \<lparr>toggle = True, button_outgoing = False, button_incoming = False,
      manual_text = ''Hello'', button_manual = True\<rparr>"

section \<open>Auxiliary facts\<close>

subsection \<open>The table of translation models\<close>

text \<open>Every key of the table has five characters and two different halves.\<close>

lemma same_language_key_unsupported:
  "map_of TRANSLATION_MODELS (L @ ''-'' @ L) = None"
proof (cases "length L = 2")
  case True
  then obtain a b where "L = [a, b]"
    by (auto simp: length_Suc_conv numeral_2_eq_2)
  then show ?thesis
    by (simp add: TRANSLATION_MODELS_def)
next
  case False
  have "\<forall>k \<in> set (map fst TRANSLATION_MODELS). length k = 5"
    by (simp add: TRANSLATION_MODELS_def)
  moreover from False have "length (L @ ''-'' @ L) \<noteq> 5"
    by simp
  ultimately have "L @ ''-'' @ L \<notin> set (map fst TRANSLATION_MODELS)"
    by blast
  then show ?thesis
    by (simp add: map_of_eq_None_iff)
qed

subsection \<open>Calls of the speech back end\<close>

lemma gtts_calls_append: "gtts_calls (xs @ ys) = gtts_calls xs @ gtts_calls ys"
  by (simp add: gtts_calls_def)

lemma gtts_calls_translate: "gtts_calls (snd (translate_text e t s g)) = []"
  by (simp add: translate_text_def TranslatorService_translate_text_def
      load_model_and_tokenizer_def gtts_calls_def
      split: option.splits sum.splits prod.splits bool.splits)

lemma gtts_calls_save:
  "gtts_calls (snd (snd (save_conversation_log e self st db d ot tt ab))) = []"
  by (simp add: save_conversation_log_def gtts_calls_def Let_def split: option.splits)

lemma gtts_calls_speech:
  "gtts_calls (snd (generate_speech e t v None)) =
     (if t = [] then [] else [(t, case detect e t of Inl ex \<Rightarrow> ''en'' | Inr l \<Rightarrow> l)])"
  by (simp add: generate_speech_def text_to_speech_def gtts_calls_def Let_def
      split: sum.splits)

text \<open>The voice preference reaches \<^verbatim>\<open>text_to_speech\<close> and is not read there.\<close>

lemma voice_type_unused: "generate_speech e t v l = generate_speech e t v' l"
  by (simp add: generate_speech_def text_to_speech_def)

subsection \<open>The turn productions with a user present\<close>

lemma outgoing_unfold:
  assumes "user self = Some u"
  shows "simulate_outgoing_message e self st db =
    (let original_text = fst (get_mock_decoded_text e);
         tr = translate_text e original_text (native_language u) (target_language u);
         sp = generate_speech e (fst tr) (voice_type u) None;
         st2 = st\<lparr>conversation_history := conversation_history st @
                 [\<lparr>sender = ''You'', original = original_text, translated = fst tr,
                   confidence = Some (snd (get_mock_decoded_text e)), audio = fst sp,
                   timestamp = get_message_counter st\<rparr>],
                message_counter := Some (get_message_counter st + 1)\<rparr>;
         sv = save_conversation_log e self st2 db ''outgoing'' original_text (fst tr) (fst sp)
     in Inr \<lparr>returned = (original_text, fst tr, fst sp), session = st2,
             database = fst (snd sv), events = snd tr @ snd sp @ snd (snd sv)\<rparr>)"
  using assms
  by (simp add: simulate_outgoing_message_def Let_def get_message_counter_def
      split: prod.splits)

lemma incoming_unfold:
  assumes "user self = Some u"
  shows "simulate_incoming_message e self st db =
    (let original_text =
           (case transcribe_speech e (mock_audio e) of
              None \<Rightarrow> ''Sorry, I couldn't understand that.''
            | Some transcription \<Rightarrow>
                if transcription = [] then ''Sorry, I couldn't understand that.''
                else transcription);
         tr = translate_text e original_text (target_language u) (native_language u);
         sp = generate_speech e (fst tr) (voice_type u) None;
         st2 = st\<lparr>conversation_history := conversation_history st @
                 [\<lparr>sender = ''Partner'', original = original_text, translated = fst tr,
                   confidence = None, audio = fst sp,
                   timestamp = get_message_counter st\<rparr>],
                message_counter := Some (get_message_counter st + 1)\<rparr>;
         sv = save_conversation_log e self st2 db ''incoming'' original_text (fst tr) (fst sp)
     in Inr \<lparr>returned = (original_text, fst tr, fst sp), session = st2,
             database = fst (snd sv), events = snd tr @ snd sp @ snd (snd sv)\<rparr>)"
  using assms
  by (simp add: simulate_incoming_message_def Let_def get_message_counter_def
      split: prod.splits)

lemma manual_unfold:
  assumes "user self = Some u" "button_manual ui" "manual_text ui \<noteq> []"
    "\<not> (button_outgoing ui \<and> toggle ui)" "\<not> button_incoming ui"
  shows "conversation_interface e ui self st db =
    (let native_translated_text =
           fst (translate_text e (manual_text ui) ''en'' (native_language u));
         tr = translate_text e native_translated_text (native_language u) (target_language u);
         sp = generate_speech e (fst tr) (voice_type u) None;
         st2 = st\<lparr>active_decoding := toggle ui,
                conversation_history := conversation_history st @
                 [\<lparr>sender = ''You'', original = native_translated_text, translated = fst tr,
                   confidence = Some 1, audio = fst sp,
                   timestamp = get_message_counter st\<rparr>],
                message_counter := Some (get_message_counter st + 1)\<rparr>;
         sv = save_conversation_log e self st2 db ''outgoing'' (manual_text ui) (fst tr) (fst sp)
     in Inr \<lparr>returned = (), session = st2, database = fst (snd sv),
             events = (if button_outgoing ui
                       then [StWarning
                               ''Active decoding is disabled. Enable it to send messages.'']
                       else [])
                @ snd (translate_text e (manual_text ui) ''en'' (native_language u))
                @ snd tr @ snd sp @ snd (snd sv) @ [StSuccess ''Manual message sent!'']\<rparr>)"
proof (cases "button_outgoing ui")
  case True
  with assms have "\<not> toggle ui" by simp
  with True assms show ?thesis
    by (simp add: conversation_interface_def Let_def get_message_counter_def
        split: prod.splits)
next
  case False
  with assms show ?thesis
    by (simp add: conversation_interface_def Let_def get_message_counter_def
        split: prod.splits)
qed

subsection \<open>The outcome of the commit\<close>

lemma commit_irrelevant:
  "get_mock_decoded_text (e\<lparr>commit := c\<rparr>) = get_mock_decoded_text e"
  "translate_text (e\<lparr>commit := c\<rparr>) t s g = translate_text e t s g"
  "generate_speech (e\<lparr>commit := c\<rparr>) t v l = generate_speech e t v l"
  "transcribe_speech (e\<lparr>commit := c\<rparr>) b = transcribe_speech e b"
  by (simp_all add: get_mock_decoded_text_def decode_signal_def translate_text_def
      TranslatorService_translate_text_def load_model_and_tokenizer_def generate_speech_def
      text_to_speech_def transcribe_speech_def transcribe_audio_def
      split: option.splits)

lemma save_failed:
  "commit e = Some ex \<Longrightarrow> user self = Some u \<Longrightarrow>
   save_conversation_log e self st db d ot tt ab =
     (False, db, [StError (''Error saving conversation log: '' @ ex)])"
  by (simp add: save_conversation_log_def Let_def)

subsection \<open>Repeated turn productions\<close>

lemma produce_turns_history:
  assumes "user self = Some u"
  shows "\<exists>st' db' new. produce_turns self st db calls = Inr (st', db') \<and>
           conversation_history st' = conversation_history st @ new \<and>
           map timestamp new = map (\<lambda>i. get_message_counter st + int i) [0..<length calls] \<and>
           map sender new =
             map (\<lambda>c. case fst c of Outgoing \<Rightarrow> ''You'' | Incoming \<Rightarrow> ''Partner'') calls"
proof (induction calls arbitrary: st db)
  case Nil
  show ?case by simp
next
  case (Cons c calls)
  obtain k e where c: "c = (k, e)" by (cases c)
  define step where
    "step = (case k of Outgoing \<Rightarrow> simulate_outgoing_message e self st db
                     | Incoming \<Rightarrow> simulate_incoming_message e self st db)"
  obtain r m where r: "step = Inr r"
      and h: "conversation_history (session r) = conversation_history st @ [m]"
      and t: "timestamp m = get_message_counter st"
      and s: "sender m = (case k of Outgoing \<Rightarrow> ''You'' | Incoming \<Rightarrow> ''Partner'')"
      and n: "get_message_counter (session r) = get_message_counter st + 1"
    unfolding step_def
    by (cases k)
       (simp_all add: outgoing_unfold [OF assms] incoming_unfold [OF assms] Let_def
          get_message_counter_def)
  from Cons.IH [of "session r" "database r"] obtain st' db' new
    where run: "produce_turns self (session r) (database r) calls = Inr (st', db')"
      and h': "conversation_history st' = conversation_history (session r) @ new"
      and t': "map timestamp new =
                 map (\<lambda>i. get_message_counter (session r) + int i) [0..<length calls]"
      and s': "map sender new =
                 map (\<lambda>c. case fst c of Outgoing \<Rightarrow> ''You'' | Incoming \<Rightarrow> ''Partner'') calls"
    by blast
  have "produce_turns self st db (c # calls) = Inr (st', db')"
    using r run by (simp add: c step_def)
  moreover have "conversation_history st' = conversation_history st @ (m # new)"
    using h h' by simp
  moreover have "map timestamp (m # new) =
      map (\<lambda>i. get_message_counter st + int i) [0..<length (c # calls)]"
    using t t' n by (simp add: map_upt_Suc add.assoc del: upt_Suc)
  moreover have "map sender (m # new) =
      map (\<lambda>c. case fst c of Outgoing \<Rightarrow> ''You'' | Incoming \<Rightarrow> ''Partner'') (c # calls)"
    using s s' by (simp add: c)
  ultimately show ?case by blast
qed

section \<open>The claims\<close>

subsection \<open>C1: the language of the synthesized audio\<close>

text \<open>
  C1, as stated: for every authenticated user, \<^verbatim>\<open>simulate_outgoing_message\<close> synthesizes
  audio from the translated text with the user's voice preference and with the user's
  target language as the synthesis language.

  The code calls \<^verbatim>\<open>generate_speech(translated_text, self.user.voice_type)\<close> and passes no
  language. For a user whose target language is \<^verbatim>\<open>"none"\<close> the phrase "I need help" is
  spoken in the detected language \<^verbatim>\<open>"en"\<close>: the only call of the back end is
  \<^verbatim>\<open>gTTS(text="I need help", lang="en")\<close>.
\<close>

theorem outgoing_language_not_target:
  "target_language example_user_untranslated = ''none'' \<and>
   simulate_outgoing_message env_working \<lparr>user = Some example_user_untranslated\<rparr>
        initial_session [] =
     Inr \<lparr>returned = (''I need help'', ''I need help'', Some [73, 68, 51]),
          session = \<lparr>conversation_history =
                       [\<lparr>sender = ''You'', original = ''I need help'',
                         translated = ''I need help'', confidence = Some (17 / 20),
                         audio = Some [73, 68, 51], timestamp = 0\<rparr>],
                     message_counter = Some 1, active_decoding = True\<rparr>,
          database = [\<lparr>user_id_col = 8, direction_col = ''outgoing'',
                       original_text_col = ''I need help'',
                       translated_text_col = ''I need help'',
                       audio_file_path_col = Some ''audio_logs/8_outgoing_1.wav''\<rparr>],
          events = [GttsCall ''I need help'' ''en'']\<rparr>"
  by (simp add: simulate_outgoing_message_def get_mock_decoded_text_def decode_signal_def
      phrases_def translate_text_def generate_speech_def text_to_speech_def
      save_conversation_log_def Let_def env_working_def str_int_def str_nat.simps
      example_user_untranslated_def initial_session_def get_message_counter_def)

text \<open>
  C1, amended: for every authenticated user, \<^verbatim>\<open>simulate_outgoing_message\<close> returns the
  translation of the decoded phrase from the native to the target language, and the audio
  that \<^verbatim>\<open>generate_speech\<close> makes of that translated text when given the user's voice
  preference and no language. The back end is called at most once, on the translated text,
  and the synthesis language is the language detected in the translated text, or
  \<^verbatim>\<open>"en"\<close> when detection raises; it is not called when the translated text is empty.
\<close>

theorem outgoing_synthesis_language:
  assumes "user self = Some u"
  shows "\<exists>r. simulate_outgoing_message e self st db = Inr r \<and>
           fst (snd (returned r)) =
             fst (translate_text e (fst (get_mock_decoded_text e))
                    (native_language u) (target_language u)) \<and>
           snd (snd (returned r)) =
             fst (generate_speech e (fst (snd (returned r))) (voice_type u) None) \<and>
           gtts_calls (events r) =
             (if fst (snd (returned r)) = [] then []
              else [(fst (snd (returned r)),
                     case detect e (fst (snd (returned r))) of
                       Inl ex \<Rightarrow> ''en'' | Inr l \<Rightarrow> l)])"
  by (simp add: outgoing_unfold [OF assms] Let_def gtts_calls_append gtts_calls_translate
      gtts_calls_save gtts_calls_speech)

theorem outgoing_synthesis_language_witness:
  "user \<lparr>user = Some example_user\<rparr> = Some example_user \<and>
   (\<exists>r. simulate_outgoing_message env_working \<lparr>user = Some example_user\<rparr> initial_session []
          = Inr r \<and>
      fst (snd (returned r)) = ''Necesito ayuda'' \<and>
      snd (snd (returned r)) = Some [73, 68, 51] \<and>
      gtts_calls (events r) = [(''Necesito ayuda'', ''es'')])"
proof -
  have u: "user \<lparr>user = Some example_user\<rparr> = Some example_user" by simp
  have d: "fst (get_mock_decoded_text env_working) = ''I need help''"
    by (simp add: get_mock_decoded_text_def decode_signal_def phrases_def env_working_def)
  have tr: "fst (translate_text env_working ''I need help''
                  (native_language example_user) (target_language example_user)) =
            ''Necesito ayuda''"
    by (simp add: translate_text_def TranslatorService_translate_text_def
        TRANSLATION_MODELS_def load_model_and_tokenizer_def env_working_def example_user_def)
  have sp: "fst (generate_speech env_working ''Necesito ayuda'' (voice_type example_user) None)
             = Some [73, 68, 51]"
    by (simp add: generate_speech_def text_to_speech_def env_working_def)
  have dt: "detect env_working ''Necesito ayuda'' = Inr ''es''"
    by (simp add: env_working_def)
  from outgoing_synthesis_language [OF u, of env_working initial_session "[]"]
  obtain r where r: "simulate_outgoing_message env_working \<lparr>user = Some example_user\<rparr>
                       initial_session [] = Inr r"
    and t: "fst (snd (returned r)) = ''Necesito ayuda''"
    and a: "snd (snd (returned r)) =
              fst (generate_speech env_working (fst (snd (returned r)))
                     (voice_type example_user) None)"
    and g: "gtts_calls (events r) =
              (if fst (snd (returned r)) = [] then []
               else [(fst (snd (returned r)),
                      case detect env_working (fst (snd (returned r))) of
                        Inl ex \<Rightarrow> ''en'' | Inr l \<Rightarrow> l)])"
    by (auto simp add: d tr)
  from a have "snd (snd (returned r)) = Some [73, 68, 51]"
    by (simp only: t sp)
  moreover from g have "gtts_calls (events r) = [(''Necesito ayuda'', ''es'')]"
    by (simp add: t dt)
  ultimately show ?thesis using r t u by blast
qed

subsection \<open>C2: sender and sequence numbers of repeated turns\<close>

text \<open>
  C2: in a session with a logged-in user, every sequence of turn productions returns, each
  call appends one turn to the session history, every turn of
  \<^verbatim>\<open>simulate_outgoing_message\<close> has the sender \<^verbatim>\<open>"You"\<close>, and the \<^verbatim>\<open>timestamp\<close> fields
  of the appended turns count up from the counter of the session, so they increase strictly
  from call to call. Nothing is assumed of the environment: the translator and the
  synthesizer may fail in any call.
\<close>

theorem outgoing_turns_increasing:
  assumes "user self = Some u"
  shows "\<exists>st' db' new. produce_turns self st db calls = Inr (st', db') \<and>
           conversation_history st' = conversation_history st @ new \<and>
           length new = length calls \<and>
           (\<forall>i < length calls. fst (calls ! i) = Outgoing \<longrightarrow> sender (new ! i) = ''You'') \<and>
           (\<forall>i < length calls. timestamp (new ! i) = get_message_counter st + int i) \<and>
           (\<forall>i j. i < j \<and> j < length calls \<longrightarrow> timestamp (new ! i) < timestamp (new ! j))"
proof -
  from produce_turns_history [OF assms, of st db calls] obtain st' db' new
    where run: "produce_turns self st db calls = Inr (st', db')"
      and h: "conversation_history st' = conversation_history st @ new"
      and t: "map timestamp new = map (\<lambda>i. get_message_counter st + int i) [0..<length calls]"
      and s: "map sender new =
                map (\<lambda>c. case fst c of Outgoing \<Rightarrow> ''You'' | Incoming \<Rightarrow> ''Partner'') calls"
    by blast
  from t have len: "length new = length calls"
    by (metis length_map length_upt minus_nat.diff_0)
  have ts: "timestamp (new ! i) = get_message_counter st + int i" if "i < length calls" for i
  proof -
    have "timestamp (new ! i) = map timestamp new ! i"
      using that len by simp
    also have "\<dots> = get_message_counter st + int i"
      using that by (simp add: t)
    finally show ?thesis .
  qed
  have sd: "sender (new ! i) = ''You''" if "i < length calls" "fst (calls ! i) = Outgoing" for i
  proof -
    have "sender (new ! i) = map sender new ! i"
      using that len by simp
    also have "\<dots> = ''You''"
      using that by (simp add: s)
    finally show ?thesis .
  qed
  have "timestamp (new ! i) < timestamp (new ! j)" if "i < j" "j < length calls" for i j
    using that ts [of i] ts [of j] by simp
  with run h len ts sd show ?thesis by blast
qed

theorem outgoing_turns_increasing_witness:
  "user \<lparr>user = Some example_user\<rparr> = Some example_user \<and>
   (\<exists>st' db' new.
      produce_turns \<lparr>user = Some example_user\<rparr> initial_session []
        [(Outgoing, env_working), (Incoming, env_working), (Outgoing, env_failing)]
        = Inr (st', db') \<and>
      conversation_history st' = conversation_history initial_session @ new \<and>
      length new = 3 \<and>
      sender (new ! 0) = ''You'' \<and> sender (new ! 2) = ''You'' \<and>
      timestamp (new ! 0) = 0 \<and> timestamp (new ! 1) = 1 \<and> timestamp (new ! 2) = 2)"
proof -
  have u: "user \<lparr>user = Some example_user\<rparr> = Some example_user" by simp
  from outgoing_turns_increasing [OF u, of initial_session "[]"
      "[(Outgoing, env_working), (Incoming, env_working), (Outgoing, env_failing)]"]
  obtain st' db' new where
    "produce_turns \<lparr>user = Some example_user\<rparr> initial_session []
        [(Outgoing, env_working), (Incoming, env_working), (Outgoing, env_failing)]
        = Inr (st', db')"
    "conversation_history st' = conversation_history initial_session @ new"
    "length new = 3"
    "\<forall>i < 3. fst ([(Outgoing, env_working), (Incoming, env_working),
                    (Outgoing, env_failing)] ! i) = Outgoing
        \<longrightarrow> sender (new ! i) = ''You''"
    "\<forall>i < 3. timestamp (new ! i) = get_message_counter initial_session + int i"
    by auto
  moreover from this have "sender (new ! 0) = ''You''" "sender (new ! 2) = ''You''"
    "timestamp (new ! 0) = 0" "timestamp (new ! 1) = 1" "timestamp (new ! 2) = 2"
    by (simp_all add: initial_session_def get_message_counter_def)
  ultimately show ?thesis using u by blast
qed

subsection \<open>C3: a failed commit and the session history\<close>

text \<open>
  C3: when the commit of the log entry fails (the exception is caught inside
  \<^verbatim>\<open>save_conversation_log\<close>, which answers \<^verbatim>\<open>False\<close>), an outgoing and an incoming turn
  production still return; the session history is the old one with the new turn at its
  end, the counter is one more than before, the table is unchanged, and the session state
  is the very one that the same call leaves when the commit succeeds.
\<close>

theorem persistence_failure_keeps_turn:
  assumes "user self = Some u" and "commit e = Some ex"
  shows "(\<exists>r m. simulate_outgoing_message e self st db = Inr r \<and>
            conversation_history (session r) = conversation_history st @ [m] \<and>
            message_counter (session r) = Some (get_message_counter st + 1) \<and>
            database r = db \<and>
            Inr (session r) =
              map_sum id session (simulate_outgoing_message (e\<lparr>commit := None\<rparr>) self st db)) \<and>
         (\<exists>r m. simulate_incoming_message e self st db = Inr r \<and>
            conversation_history (session r) = conversation_history st @ [m] \<and>
            message_counter (session r) = Some (get_message_counter st + 1) \<and>
            database r = db \<and>
            Inr (session r) =
              map_sum id session (simulate_incoming_message (e\<lparr>commit := None\<rparr>) self st db))"
  by (simp add: outgoing_unfold [OF assms(1)] incoming_unfold [OF assms(1)] Let_def
      save_failed [OF assms(2) assms(1)] commit_irrelevant)

theorem persistence_failure_keeps_turn_witness:
  "user \<lparr>user = Some example_user\<rparr> = Some example_user \<and>
   commit env_failing = Some ''database is locked'' \<and>
   (\<exists>r m. simulate_outgoing_message env_failing \<lparr>user = Some example_user\<rparr>
             initial_session [] = Inr r \<and>
      conversation_history (session r) = [m] \<and>
      message_counter (session r) = Some 1 \<and> database r = []) \<and>
   (\<exists>r m. simulate_incoming_message env_failing \<lparr>user = Some example_user\<rparr>
             initial_session [] = Inr r \<and>
      conversation_history (session r) = [m] \<and>
      message_counter (session r) = Some 1 \<and> database r = [])"
proof -
  have u: "user \<lparr>user = Some example_user\<rparr> = Some example_user" by simp
  have c: "commit env_failing = Some ''database is locked''" by (simp add: env_failing_def)
  from persistence_failure_keeps_turn [OF u c, of initial_session "[]"] u c
  show ?thesis
    by (simp add: initial_session_def get_message_counter_def) blast
qed

subsection \<open>C4: the same source and target language\<close>

text \<open>
  C4: for every text \<open>t\<close> and every language code \<open>L\<close>, \<^verbatim>\<open>translate_text(t, L, L)\<close>
  returns \<open>t\<close>. The code has no test for equal languages: the key \<^verbatim>\<open>"L-L"\<close> is in no
  row of the table of models, so the translator service answers \<^verbatim>\<open>None\<close> and the text is
  passed through.
\<close>

theorem translate_same_language: "fst (translate_text e t L L) = t"
  using same_language_key_unsupported [of L]
  by (simp add: translate_text_def TranslatorService_translate_text_def)

subsection \<open>C5: an unsupported language pair\<close>

text \<open>
  C5, as stated: for every text and every language pair that is not in the table of
  models, \<^verbatim>\<open>translate_text\<close> returns the text unchanged, reports a warning and does not
  raise.

  For the empty text the function returns at its first test and reports nothing, also for
  the unsupported pair \<^verbatim>\<open>("en", "xx")\<close>.
\<close>

theorem unsupported_pair_empty_text_no_warning:
  "map_of TRANSLATION_MODELS (''en'' @ ''-'' @ ''xx'') = None \<and>
   translate_text env_working [] ''en'' ''xx'' = ([], [])"
  by (simp add: TRANSLATION_MODELS_def translate_text_def)

text \<open>
  C5, amended: for every text and every language pair that is not in the table of models,
  \<^verbatim>\<open>translate_text\<close> returns the text unchanged and does not raise; it reports the one
  warning \<^verbatim>\<open>Translation from <source> to <target> not supported\<close> when the text is not empty
  and the target language is neither \<^verbatim>\<open>"no"\<close> nor \<^verbatim>\<open>"none"\<close>, and reports nothing
  otherwise.
\<close>

theorem unsupported_pair_passthrough:
  assumes "map_of TRANSLATION_MODELS (source_lang @ ''-'' @ target_lang) = None"
  shows "fst (translate_text e t source_lang target_lang) = t \<and>
         snd (translate_text e t source_lang target_lang) =
           (if t = [] \<or> target_lang = ''no'' \<or> target_lang = ''none'' then []
            else [StWarning (''Translation from '' @ source_lang @ '' to '' @ target_lang
                             @ '' not supported'')])"
  using assms
  by (simp add: translate_text_def TranslatorService_translate_text_def)

theorem unsupported_pair_passthrough_witness:
  "map_of TRANSLATION_MODELS (''en'' @ ''-'' @ ''xx'') = None \<and>
   fst (translate_text env_working ''Hello'' ''en'' ''xx'') = ''Hello'' \<and>
   snd (translate_text env_working ''Hello'' ''en'' ''xx'') =
     [StWarning ''Translation from en to xx not supported'']"
proof -
  have k: "map_of TRANSLATION_MODELS (''en'' @ ''-'' @ ''xx'') = None"
    by (simp add: TRANSLATION_MODELS_def)
  from unsupported_pair_passthrough [OF k, of env_working "''Hello''"] k
  show ?thesis by simp
qed

subsection \<open>C6: the fallback text of an incoming turn\<close>

text \<open>
  C6: when the transcription of an incoming turn is absent or empty,
  \<^verbatim>\<open>simulate_incoming_message\<close> takes \<^verbatim>\<open>"Sorry, I couldn't understand that."\<close> as the
  original text and still appends and returns a partner turn, whose translated text is
  the translation of that string from the target language to the native language of the
  user.
\<close>

theorem incoming_fallback:
  assumes "user self = Some u"
    and "transcribe_speech e (mock_audio e) = None \<or>
         transcribe_speech e (mock_audio e) = Some []"
  shows "\<exists>r m. simulate_incoming_message e self st db = Inr r \<and>
           fst (returned r) = ''Sorry, I couldn't understand that.'' \<and>
           fst (snd (returned r)) =
             fst (translate_text e ''Sorry, I couldn't understand that.''
                    (target_language u) (native_language u)) \<and>
           conversation_history (session r) = conversation_history st @ [m] \<and>
           sender m = ''Partner'' \<and>
           original m = ''Sorry, I couldn't understand that.'' \<and>
           translated m =
             fst (translate_text e ''Sorry, I couldn't understand that.''
                    (target_language u) (native_language u))"
  using assms(2)
  by (auto simp add: incoming_unfold [OF assms(1)] Let_def)

theorem incoming_fallback_witness:
  "user \<lparr>user = Some example_user\<rparr> = Some example_user \<and>
   transcribe_speech env_failing (mock_audio env_failing) = None \<and>
   (\<exists>r m. simulate_incoming_message env_failing \<lparr>user = Some example_user\<rparr>
             initial_session [] = Inr r \<and>
      fst (returned r) = ''Sorry, I couldn't understand that.'' \<and>
      fst (snd (returned r)) = ''Sorry, I couldn't understand that.'' \<and>
      conversation_history (session r) = [m] \<and>
      sender m = ''Partner'' \<and>
      original m = ''Sorry, I couldn't understand that.'' \<and>
      translated m = ''Sorry, I couldn't understand that.'')"
proof -
  have u: "user \<lparr>user = Some example_user\<rparr> = Some example_user" by simp
  have t: "transcribe_speech env_failing (mock_audio env_failing) = None"
    by (simp add: transcribe_speech_def env_failing_def)
  have tr: "fst (translate_text env_failing ''Sorry, I couldn't understand that.''
                  (target_language example_user) (native_language example_user)) =
            ''Sorry, I couldn't understand that.''"
    by (simp add: translate_text_def TranslatorService_translate_text_def
        TRANSLATION_MODELS_def load_model_and_tokenizer_def env_failing_def example_user_def)
  from incoming_fallback [OF u disjI1 [OF t], of initial_session "[]"] u t
  show ?thesis
    by (simp add: tr initial_session_def)
qed

subsection \<open>C7: the sentinel target language\<close>

text \<open>
  C7: for every text \<open>t\<close> and every source language \<open>L\<close>,
  \<^verbatim>\<open>translate_text(t, L, "none")\<close> returns \<open>t\<close>, and reports nothing.
\<close>

theorem translate_none_target: "translate_text e t L ''none'' = (t, [])"
  by (simp add: translate_text_def)

subsection \<open>C8: the empty text\<close>

text \<open>
  C8: for every source and target language, \<^verbatim>\<open>translate_text("", source, target)\<close> returns
  the empty string; it returns at its first test, before any call that could raise, and
  reports nothing.
\<close>

theorem translate_empty_text: "translate_text e [] source_lang target_lang = ([], [])"
  by (simp add: translate_text_def)

subsection \<open>C9: speech of the empty text\<close>

text \<open>
  C9: for every voice preference (and every language argument),
  \<^verbatim>\<open>generate_speech("", voice)\<close> returns \<^verbatim>\<open>None\<close>; the back end is not called and no
  error is reported.
\<close>

theorem generate_speech_empty_text: "generate_speech e [] voice language = (None, [])"
  by (simp add: generate_speech_def)

subsection \<open>C10: the two original texts of a manual message\<close>

text \<open>
  C10: when a manual message is sent (a user is logged in, the send button is pressed with
  a text that is not empty, and no other button has ended the run before), the turn
  appended to the session history has as its original text the translation of the typed
  text from \<^verbatim>\<open>"en"\<close> to the native language, while the row handed to the database has the
  typed text itself as \<^verbatim>\<open>original_text\<close>; the two differ exactly when that translation
  changes the text. The row is stored when the commit succeeds; when it fails the table is
  unchanged.
\<close>

theorem manual_original_texts:
  assumes "user self = Some u" and "button_manual ui" and "manual_text ui \<noteq> []"
    and "\<not> (button_outgoing ui \<and> toggle ui)" and "\<not> button_incoming ui"
  shows "\<exists>r m. conversation_interface e ui self st db = Inr r \<and>
           conversation_history (session r) = conversation_history st @ [m] \<and>
           original m = fst (translate_text e (manual_text ui) ''en'' (native_language u)) \<and>
           (case commit e of
              Some ex \<Rightarrow> database r = db
            | None \<Rightarrow>
                (\<exists>row. database r = db @ [row] \<and>
                   direction_col row = ''outgoing'' \<and>
                   original_text_col row = manual_text ui \<and>
                   (original_text_col row \<noteq> original m \<longleftrightarrow>
                      fst (translate_text e (manual_text ui) ''en'' (native_language u))
                        \<noteq> manual_text ui)))"
  using assms(1)
  by (cases "commit e")
     (auto simp add: manual_unfold [OF assms] Let_def save_conversation_log_def)

theorem manual_original_texts_witness:
  "user \<lparr>user = Some example_user_spanish\<rparr> = Some example_user_spanish \<and>
   button_manual manual_hello \<and> manual_text manual_hello \<noteq> [] \<and>
   \<not> (button_outgoing manual_hello \<and> toggle manual_hello) \<and>
   \<not> button_incoming manual_hello \<and>
   (\<exists>r m row. conversation_interface env_working manual_hello
                 \<lparr>user = Some example_user_spanish\<rparr> initial_session [] = Inr r \<and>
      conversation_history (session r) = [m] \<and> original m = ''Hola'' \<and>
      database r = [row] \<and> original_text_col row = ''Hello'')"
proof -
  have u: "user \<lparr>user = Some example_user_spanish\<rparr> = Some example_user_spanish" by simp
  have b: "button_manual manual_hello" "manual_text manual_hello \<noteq> []"
    "\<not> (button_outgoing manual_hello \<and> toggle manual_hello)"
    "\<not> button_incoming manual_hello"
    by (simp_all add: manual_hello_def)
  have tr: "fst (translate_text env_working (manual_text manual_hello) ''en''
                  (native_language example_user_spanish)) = ''Hola''"
    by (simp add: translate_text_def TranslatorService_translate_text_def
        TRANSLATION_MODELS_def load_model_and_tokenizer_def env_working_def
        example_user_spanish_def manual_hello_def)
  have c: "commit env_working = None" by (simp add: env_working_def)
  have m: "manual_text manual_hello = ''Hello''" by (simp add: manual_hello_def)
  from manual_original_texts [OF u b, of env_working initial_session "[]"]
  obtain r m where r: "conversation_interface env_working manual_hello
                 \<lparr>user = Some example_user_spanish\<rparr> initial_session [] = Inr r"
    and h: "conversation_history (session r) = conversation_history initial_session @ [m]"
    and o: "original m = fst (translate_text env_working (manual_text manual_hello) ''en''
                                (native_language example_user_spanish))"
    and d: "\<exists>row. database r = [] @ [row] \<and> original_text_col row = manual_text manual_hello"
    by (auto simp add: c)
  from d obtain row where "database r = [row]" "original_text_col row = ''Hello''"
    by (auto simp add: m)
  moreover from h have "conversation_history (session r) = [m]"
    by (simp add: initial_session_def)
  moreover from o have "original m = ''Hola''"
    by (simp only: tr)
  ultimately show ?thesis using r u b by blast
qed

end
